theory Spec2Isabelle
  imports Complex_Main "HOL-Library.Multiset"
begin

section \<open>Python strings\<close>

text \<open>
  A Python \<open>str\<close> is modelled as a \<open>string\<close>, a list of \<open>char\<close>: the code points
  0 to 255 (Latin-1). Whitespace, upper case and the lower-case mapping are Python's
  (\<open>str.isspace\<close>, \<open>str.isupper\<close>, \<open>str.lower\<close>) on these code points. Code points
  from 256 on are outside the model.
\<close>

definition py_isspace :: "char \<Rightarrow> bool" where
  "py_isspace c = (let n = (of_char c :: nat) in
     (9 \<le> n \<and> n \<le> 13) \<or> (28 \<le> n \<and> n \<le> 32) \<or> n = 133 \<or> n = 160)"

definition py_isupper :: "char \<Rightarrow> bool" where
  "py_isupper c = (let n = (of_char c :: nat) in
     (65 \<le> n \<and> n \<le> 90) \<or> (192 \<le> n \<and> n \<le> 222 \<and> n \<noteq> 215))"

definition lower_char :: "char \<Rightarrow> char" where
  "lower_char c = (if py_isupper c then char_of ((of_char c :: nat) + 32) else c)"

text \<open>\<open>s.strip()\<close>: leading and trailing whitespace removed.\<close>

definition strip :: "string \<Rightarrow> string" where
  "strip s = rev (dropWhile py_isspace (rev (dropWhile py_isspace s)))"

text \<open>\<open>s.replace(a, b)\<close> for one-character \<open>a\<close> and \<open>b\<close>.\<close>

definition replace_char :: "char \<Rightarrow> char \<Rightarrow> string \<Rightarrow> string" where
  "replace_char a b s = map (\<lambda>c. if c = a then b else c) s"

definition lower :: "string \<Rightarrow> string" where
  "lower s = map lower_char s"

text \<open>\<open>sep.join(parts)\<close>.\<close>

fun join :: "string \<Rightarrow> string list \<Rightarrow> string" where
  "join sep [] = []"
| "join sep [p] = p"
| "join sep (p # q # ps) = p @ sep @ join sep (q # ps)"

text \<open>\<open>s.split(sep)\<close> for a one-character separator: always at least one field.\<close>

fun split_char :: "char \<Rightarrow> string \<Rightarrow> string list" where
  "split_char sep [] = [[]]"
| "split_char sep (c # cs) =
     (if c = sep then [] # split_char sep cs
      else (case split_char sep cs of
              [] \<Rightarrow> [[c]]
            | f # fs \<Rightarrow> (c # f) # fs))"

text \<open>\<open>s.rsplit(sep, 1)[-1]\<close>: what follows the last separator, or all of \<open>s\<close>.\<close>

definition rsplit1_last :: "char \<Rightarrow> string \<Rightarrow> string" where
  "rsplit1_last sep s = rev (takeWhile (\<lambda>c. c \<noteq> sep) (rev s))"

text \<open>\<open>s.split(sep, 1)[0]\<close>: what precedes the first separator, or all of \<open>s\<close>.\<close>

definition split1_first :: "char \<Rightarrow> string \<Rightarrow> string" where
  "split1_first sep s = takeWhile (\<lambda>c. c \<noteq> sep) s"

text \<open>Decimal digits of a natural number, and zero padding to a width.\<close>

fun show_nat :: "nat \<Rightarrow> string" where
  "show_nat n = (if n < 10 then [char_of (48 + n)]
                 else show_nat (n div 10) @ [char_of (48 + n mod 10)])"

declare show_nat.simps [simp del]

definition zpad :: "nat \<Rightarrow> nat \<Rightarrow> string" where
  "zpad w n = replicate (w - length (show_nat n)) (CHR ''0'') @ show_nat n"

definition is_digit :: "char \<Rightarrow> bool" where
  "is_digit c = (48 \<le> (of_char c :: nat) \<and> (of_char c :: nat) \<le> 57)"

definition digits_val :: "string \<Rightarrow> nat" where
  "digits_val s = foldl (\<lambda>acc c. 10 * acc + ((of_char c :: nat) - 48)) 0 s"

section \<open>Python exceptions\<close>

datatype pyerr =
  KeyError | TypeError | ValueError | AttributeError | OverflowError | ZeroDivisionError
  | IndexError | RuntimeError

section \<open>Dates and times\<close>

text \<open>A \<open>datetime\<close> in UTC, as its fields.\<close>

record datetime =
  year :: nat
  month :: nat
  day :: nat
  hour :: nat
  minute :: nat
  second :: nat
  microsecond :: nat

definition is_leap :: "nat \<Rightarrow> bool" where
  "is_leap y = (y mod 4 = 0 \<and> (y mod 100 \<noteq> 0 \<or> y mod 400 = 0))"

definition days_in_month :: "nat \<Rightarrow> nat \<Rightarrow> nat" where
  "days_in_month y m =
     (if m = 2 then (if is_leap y then 29 else 28)
      else if m = 4 \<or> m = 6 \<or> m = 9 \<or> m = 11 then 30 else 31)"

text \<open>
  One directive of \<open>strftime\<close>. The source uses \<open>%Y\<close>, \<open>%m\<close>, \<open>%d\<close>, \<open>%M\<close> and
  \<open>%S\<close>; \<open>%H\<close> and \<open>%%\<close> are given too. \<open>%Y\<close> is the year on four digits (years
  from 1000 on print so on every platform). Any other directive is left as written.
\<close>

definition directive :: "char \<Rightarrow> datetime \<Rightarrow> string" where
  "directive c dt =
     (if c = CHR ''Y'' then zpad 4 (year dt)
      else if c = CHR ''m'' then zpad 2 (month dt)
      else if c = CHR ''d'' then zpad 2 (day dt)
      else if c = CHR ''H'' then zpad 2 (hour dt)
      else if c = CHR ''M'' then zpad 2 (minute dt)
      else if c = CHR ''S'' then zpad 2 (second dt)
      else if c = CHR ''%'' then ''%''
      else [CHR ''%'', c])"

text \<open>
  \<open>dt.strftime(fmt)\<close>: a \<open>%\<close> and the character after it are a directive, every other
  character of the format is copied.
\<close>

fun strftime :: "string \<Rightarrow> datetime \<Rightarrow> string" where
  "strftime [] dt = []"
| "strftime [c] dt = [c]"
| "strftime (c # d # rest) dt =
     (if c = CHR ''%'' then directive d dt @ strftime rest dt
      else c # strftime (d # rest) dt)"

text \<open>
  \<open>datetime.strptime(s, "%Y-%m-%d")\<close>. The format compiles to the regular expression
  \<open>(\d\d\d\d)-(1[0-2]|0[1-9]|[1-9])-(3[01]|[12]\d|0[1-9]|[1-9]| [1-9])\<close>, which must
  match all of \<open>s\<close>; then the date must exist (year 0 does not). Any failure is a
  \<open>ValueError\<close>.
\<close>

definition month_field_ok :: "string \<Rightarrow> bool" where
  "month_field_ok f =
     (list_all is_digit f \<and> (length f = 1 \<or> length f = 2) \<and>
      1 \<le> digits_val f \<and> digits_val f \<le> 12)"

definition day_field_ok :: "string \<Rightarrow> bool" where
  "day_field_ok f =
     ((list_all is_digit f \<and> (length f = 1 \<or> length f = 2) \<and>
       1 \<le> digits_val f \<and> digits_val f \<le> 31)
      \<or> (length f = 2 \<and> hd f = CHR '' '' \<and> is_digit (last f) \<and> last f \<noteq> CHR ''0''))"

definition strptime_ymd :: "string \<Rightarrow> pyerr + datetime" where
  "strptime_ymd s =
     (case split_char (CHR ''-'') s of
        [y, m, d] \<Rightarrow>
          if length y = 4 \<and> list_all is_digit y \<and> month_field_ok m \<and> day_field_ok d
          then (let yy = digits_val y; mm = digits_val m;
                    dd = digits_val (dropWhile (\<lambda>c. c = CHR '' '') d)
                in if 1 \<le> yy \<and> dd \<le> days_in_month yy mm
                   then Inr \<lparr>year = yy, month = mm, day = dd, hour = 0, minute = 0,
                             second = 0, microsecond = 0\<rparr>
                   else Inl ValueError)
          else Inl ValueError
      | _ \<Rightarrow> Inl ValueError)"

section \<open>Storage keys (weather\_to\_s3.py)\<close>

text \<open>\<open>normalize_city_for_key\<close>: \<open>city.strip().replace(" ", "_").lower()\<close>.\<close>

definition normalize_city_for_key :: "string \<Rightarrow> string" where
  "normalize_city_for_key city = lower (replace_char (CHR '' '') (CHR ''_'') (strip city))"

text \<open>
  \<open>build_s3_key\<close>, with the format strings of the source: \<open>"%Y/%m/%d"\<close> for the date
  part and \<open>"H%M%S"\<close> for the time part.
\<close>

definition build_s3_key :: "string \<Rightarrow> datetime \<Rightarrow> string" where
  "build_s3_key city ts =
     (let date_part = strftime ''%Y/%m/%d'' ts;
          time_part = strftime ''H%M%S'' ts;
          city_part = normalize_city_for_key city
      in date_part @ ''/'' @ city_part @ ''_'' @ time_part @ ''.json'')"

section \<open>Listing prefix (view\_weather\_data.py)\<close>

text \<open>
  \<open>build_prefix_for_date_and_city\<close>. An argument that is \<open>None\<close> or the empty string
  is falsy and adds no part. A date that does not parse raises \<open>ValueError\<close>.
\<close>

definition build_prefix_for_date_and_city :: "string option \<Rightarrow> string option \<Rightarrow> pyerr + string" where
  "build_prefix_for_date_and_city date_str city =
     (case (case date_str of
              None \<Rightarrow> Inr []
            | Some ds \<Rightarrow>
                if ds = [] then Inr []
                else (case strptime_ymd ds of
                        Inl e \<Rightarrow> Inl ValueError
                      | Inr dt \<Rightarrow> Inr [strftime ''%Y/%m/%d'' dt])) of
        Inl e \<Rightarrow> Inl e
      | Inr date_parts \<Rightarrow>
          (let prefix_parts =
                 date_parts @
                 (case city of
                    None \<Rightarrow> []
                  | Some c \<Rightarrow>
                      if c = [] then []
                      else [lower (replace_char (CHR '' '') (CHR ''_'') (strip c)) @ ''_''])
           in if prefix_parts = [] then Inr [] else Inr (join ''/'' prefix_parts)))"

section \<open>City filter (weather\_analytics.py)\<close>

text \<open>\<open>normalize_city_for_filter\<close>: \<open>None\<close> for a falsy argument.\<close>

definition normalize_city_for_filter :: "string option \<Rightarrow> string option" where
  "normalize_city_for_filter city =
     (case city of
        None \<Rightarrow> None
      | Some c \<Rightarrow>
          if c = [] then None
          else Some (lower (replace_char (CHR '' '') (CHR ''_'') (strip c))))"

text \<open>
  The filter of \<open>main\<close> on one listed key: with a truthy \<open>city_filter\<close>, the key is
  kept when the part of its file name before the first underscore, in lower case, is
  the filter; otherwise the loop goes on to the next key.
\<close>

definition key_passes_filter :: "string option \<Rightarrow> string \<Rightarrow> bool" where
  "key_passes_filter city_filter key =
     (case city_filter of
        None \<Rightarrow> True
      | Some f \<Rightarrow>
          if f = [] then True
          else (let filename = rsplit1_last (CHR ''/'') key;
                    city_part = split1_first (CHR ''_'') filename
                in lower city_part = f))"

section \<open>Python floats\<close>

text \<open>
  A Python \<open>float\<close> is an IEEE 754 binary64 value: a finite value \<open>m * 2 ^ e\<close> with
  \<open>\<bar>m\<bar> < 2 ^ 53\<close> and \<open>-1074 \<le> e \<le> 971\<close>, an infinity or NaN. Finite values are kept
  as the rational number they denote; \<open>-0.0\<close> and \<open>0.0\<close> are not told apart. Every
  arithmetic operation computes the exact rational result and rounds it to the nearest
  binary64 value, ties to even (\<open>rnd\<close>); a result past the largest finite value is an
  infinity.
\<close>

datatype pyfloat = Fin rat | PInf | NInf | NaN

text \<open>The number of binary digits of a positive integer.\<close>

function bitlen :: "int \<Rightarrow> nat" where
  "bitlen n = (if n \<le> 0 then 0 else Suc (bitlen (n div 2)))"
  by pat_completeness auto
termination
  by (relation "measure nat") auto

declare bitlen.simps [simp del]

text \<open>\<open>ilog2 q\<close> is the integer part of the binary logarithm of a positive rational.\<close>

definition ilog2 :: "rat \<Rightarrow> int" where
  "ilog2 q = (if 1 \<le> q then int (bitlen \<lfloor>q\<rfloor>) - 1
              else - int (bitlen (\<lceil>1 / q\<rceil> - 1)))"

definition pow2 :: "int \<Rightarrow> rat" where
  "pow2 e = (if 0 \<le> e then 2 ^ nat e else 1 / 2 ^ nat (- e))"

definition round_half_even :: "rat \<Rightarrow> int" where
  "round_half_even q =
     (let f = \<lfloor>q\<rfloor>; r = q - of_int f
      in if r < 1 / 2 then f
         else if 1 / 2 < r then f + 1
         else if even f then f else f + 1)"

text \<open>
  \<open>rnd q\<close>: the mantissa \<open>m\<close> has at most 53 bits at the exponent \<open>e\<close> (not below
  \<open>-1074\<close>, where the subnormal numbers lie). The rounded magnitude \<open>m * 2 ^ e\<close>
  overflows when it reaches \<open>2 ^ 1024\<close>, that is when \<open>971 \<le> e\<close> and
  \<open>2 ^ 53 \<le> m * 2 ^ (e - 971)\<close>.
\<close>

definition rnd :: "rat \<Rightarrow> pyfloat" where
  "rnd q =
     (if q = 0 then Fin 0
      else (let a = \<bar>q\<bar>;
                e = max (ilog2 a - 52) (- 1074);
                m = round_half_even (a / pow2 e);
                v = of_int m * pow2 e
            in if 971 \<le> e \<and> 2 ^ 53 \<le> m * 2 ^ nat (e - 971)
               then (if 0 < q then PInf else NInf)
               else Fin (if 0 < q then v else - v)))"

fun fneg :: "pyfloat \<Rightarrow> pyfloat" where
  "fneg (Fin a) = Fin (- a)"
| "fneg PInf = NInf"
| "fneg NInf = PInf"
| "fneg NaN = NaN"

fun fadd :: "pyfloat \<Rightarrow> pyfloat \<Rightarrow> pyfloat" where
  "fadd NaN y = NaN"
| "fadd x NaN = NaN"
| "fadd PInf NInf = NaN"
| "fadd NInf PInf = NaN"
| "fadd PInf y = PInf"
| "fadd x PInf = PInf"
| "fadd NInf y = NInf"
| "fadd x NInf = NInf"
| "fadd (Fin a) (Fin b) = rnd (a + b)"

definition fsub :: "pyfloat \<Rightarrow> pyfloat \<Rightarrow> pyfloat" where
  "fsub x y = fadd x (fneg y)"

text \<open>The sign of a float that is not NaN, for products and quotients.\<close>

fun fsign :: "pyfloat \<Rightarrow> int" where
  "fsign (Fin a) = (if a < 0 then - 1 else if a = 0 then 0 else 1)"
| "fsign PInf = 1"
| "fsign NInf = - 1"
| "fsign NaN = 0"

definition signed_inf :: "int \<Rightarrow> pyfloat" where
  "signed_inf s = (if 0 < s then PInf else NInf)"

fun fmul :: "pyfloat \<Rightarrow> pyfloat \<Rightarrow> pyfloat" where
  "fmul NaN y = NaN"
| "fmul x NaN = NaN"
| "fmul (Fin a) (Fin b) = rnd (a * b)"
| "fmul x y = (if fsign x * fsign y = 0 then NaN else signed_inf (fsign x * fsign y))"

text \<open>\<open>x / y\<close> on floats: Python raises \<open>ZeroDivisionError\<close> for a zero divisor.\<close>

fun fdiv :: "pyfloat \<Rightarrow> pyfloat \<Rightarrow> pyerr + pyfloat" where
  "fdiv NaN y = (if y = Fin 0 then Inl ZeroDivisionError else Inr NaN)"
| "fdiv x NaN = Inr NaN"
| "fdiv (Fin a) (Fin b) = (if b = 0 then Inl ZeroDivisionError else Inr (rnd (a / b)))"
| "fdiv (Fin a) y = Inr (Fin 0)"
| "fdiv x (Fin b) =
     (if b = 0 then Inl ZeroDivisionError
      else Inr (signed_inf (fsign x * fsign (Fin b))))"
| "fdiv x y = Inr NaN"

text \<open>\<open>x < y\<close> on floats: false whenever an argument is NaN.\<close>

fun flt :: "pyfloat \<Rightarrow> pyfloat \<Rightarrow> bool" where
  "flt NaN y = False"
| "flt x NaN = False"
| "flt x NInf = False"
| "flt NInf y = True"
| "flt PInf y = False"
| "flt x PInf = True"
| "flt (Fin a) (Fin b) = (a < b)"

text \<open>
  \<open>float(n)\<close> for an \<open>int\<close>: the nearest binary64 value, \<open>OverflowError\<close> when that
  is not finite.
\<close>

definition float_of_int :: "int \<Rightarrow> pyerr + pyfloat" where
  "float_of_int n = (case rnd (of_int n) of Fin q \<Rightarrow> Inr (Fin q) | _ \<Rightarrow> Inl OverflowError)"

text \<open>
  \<open>int(x)\<close> for a \<open>float\<close>: truncation towards zero; \<open>ValueError\<close> for NaN and
  \<open>OverflowError\<close> for an infinity.
\<close>

fun int_of_float :: "pyfloat \<Rightarrow> pyerr + int" where
  "int_of_float (Fin a) = Inr (if 0 \<le> a then \<lfloor>a\<rfloor> else \<lceil>a\<rceil>)"
| "int_of_float NaN = Inl ValueError"
| "int_of_float x = Inl OverflowError"

section \<open>Per-city statistics (weather\_analytics.py)\<close>

record city_stats =
  count :: int
  temp_sum :: pyfloat
  temp_min :: "pyfloat option"
  temp_max :: "pyfloat option"

text \<open>\<open>CityStats()\<close>, the dataclass defaults.\<close>

definition new_city_stats :: city_stats where
  "new_city_stats = \<lparr>count = 0, temp_sum = Fin 0, temp_min = None, temp_max = None\<rparr>"

text \<open>\<open>update_stats\<close>: the four updates in the order of the source.\<close>

definition update_stats :: "city_stats \<Rightarrow> pyfloat \<Rightarrow> city_stats" where
  "update_stats stats temp_c =
     (let s1 = stats\<lparr>count := count stats + 1\<rparr>;
          s2 = s1\<lparr>temp_sum := fadd (temp_sum s1) temp_c\<rparr>;
          s3 = (case temp_min s2 of
                  None \<Rightarrow> s2\<lparr>temp_min := Some temp_c\<rparr>
                | Some m \<Rightarrow> if flt temp_c m then s2\<lparr>temp_min := Some temp_c\<rparr> else s2)
      in (case temp_max s3 of
            None \<Rightarrow> s3\<lparr>temp_max := Some temp_c\<rparr>
          | Some m \<Rightarrow> if flt m temp_c then s3\<lparr>temp_max := Some temp_c\<rparr> else s3))"

text \<open>
  The average that \<open>print_city_stats_table\<close> derives:
  \<open>stats.temp_sum / stats.count if stats.count else 0.0\<close>.
\<close>

definition avg_temp :: "city_stats \<Rightarrow> pyerr + pyfloat" where
  "avg_temp stats =
     (if count stats \<noteq> 0
      then (case float_of_int (count stats) of
              Inl e \<Rightarrow> Inl e
            | Inr c \<Rightarrow> fdiv (temp_sum stats) c)
      else Inr (Fin 0))"

text \<open>
  Auxiliary notion for the proofs about the running minimum and maximum: one step of
  "keep the better of the two" for a comparison \<open>lt\<close>.
\<close>

definition pick :: "(pyfloat \<Rightarrow> pyfloat \<Rightarrow> bool) \<Rightarrow> pyfloat option \<Rightarrow> pyfloat \<Rightarrow> pyfloat option" where
  "pick lt acc t = (case acc of None \<Rightarrow> Some t | Some m \<Rightarrow> if lt t m then Some t else Some m)"

section \<open>JSON documents as Python values\<close>

text \<open>
  What \<open>json.loads\<close> returns: \<open>None\<close>, a \<open>bool\<close>, an \<open>int\<close>, a \<open>float\<close>, a \<open>str\<close>,
  a \<open>list\<close> or a \<open>dict\<close> with string keys. A \<open>dict\<close> is an association list read
  with \<open>map_of\<close>.
\<close>

datatype json =
  JNull | JBool bool | JInt int | JFloat pyfloat | JStr string
  | JList "json list" | JDict "(string \<times> json) list"

text \<open>
  Built-in functions of Python that the scripts call and that are not modelled in
  detail: \<open>float(s)\<close> and \<open>int(s)\<close> on a string (\<open>None\<close> stands for \<open>ValueError\<close>),
  \<open>str(x)\<close> on a value that is not a string, and \<open>sum\<close> on a list of floats (a plain
  left fold before Python 3.12, a compensated sum from 3.12 on).
\<close>

record builtins =
  str_to_float :: "string \<Rightarrow> pyfloat option"
  str_to_int :: "string \<Rightarrow> int option"
  repr_of :: "json \<Rightarrow> string"
  sum_floats :: "pyfloat list \<Rightarrow> pyfloat"

text \<open>Sequencing of steps that may raise.\<close>

definition bnd :: "'e + 'a \<Rightarrow> ('a \<Rightarrow> 'e + 'b) \<Rightarrow> 'e + 'b" where
  "bnd m f = (case m of Inl e \<Rightarrow> Inl e | Inr x \<Rightarrow> f x)"

text \<open>Truth value of a Python value (\<open>if x\<close>, \<open>x or y\<close>).\<close>

fun truthy :: "json \<Rightarrow> bool" where
  "truthy JNull = False"
| "truthy (JBool b) = b"
| "truthy (JInt n) = (n \<noteq> 0)"
| "truthy (JFloat f) = (f \<noteq> Fin 0)"
| "truthy (JStr s) = (s \<noteq> [])"
| "truthy (JList xs) = (xs \<noteq> [])"
| "truthy (JDict kvs) = (kvs \<noteq> [])"

text \<open>\<open>x or y\<close>.\<close>

definition py_or :: "json \<Rightarrow> json \<Rightarrow> json" where
  "py_or x y = (if truthy x then x else y)"

text \<open>\<open>x[k]\<close> for a string key \<open>k\<close>: only a \<open>dict\<close> can be indexed by a string.\<close>

fun subscript_str :: "json \<Rightarrow> string \<Rightarrow> pyerr + json" where
  "subscript_str (JDict kvs) k = (case map_of kvs k of None \<Rightarrow> Inl KeyError | Some v \<Rightarrow> Inr v)"
| "subscript_str x k = Inl TypeError"

text \<open>\<open>x[0]\<close>.\<close>

fun subscript_0 :: "json \<Rightarrow> pyerr + json" where
  "subscript_0 (JList []) = Inl IndexError"
| "subscript_0 (JList (x # xs)) = Inr x"
| "subscript_0 (JStr []) = Inl IndexError"
| "subscript_0 (JStr (c # cs)) = Inr (JStr [c])"
| "subscript_0 (JDict kvs) = Inl KeyError"
| "subscript_0 x = Inl TypeError"

text \<open>\<open>x.get(k, default)\<close>: only a \<open>dict\<close> has the method.\<close>

fun get_method :: "json \<Rightarrow> string \<Rightarrow> json \<Rightarrow> pyerr + json" where
  "get_method (JDict kvs) k dflt = Inr (case map_of kvs k of None \<Rightarrow> dflt | Some v \<Rightarrow> v)"
| "get_method x k dflt = Inl AttributeError"

text \<open>\<open>float(x)\<close>, \<open>int(x)\<close> and \<open>str(x)\<close>.\<close>

fun py_float :: "builtins \<Rightarrow> json \<Rightarrow> pyerr + pyfloat" where
  "py_float B JNull = Inl TypeError"
| "py_float B (JBool b) = Inr (Fin (if b then 1 else 0))"
| "py_float B (JInt n) = float_of_int n"
| "py_float B (JFloat f) = Inr f"
| "py_float B (JStr s) = (case str_to_float B s of None \<Rightarrow> Inl ValueError | Some f \<Rightarrow> Inr f)"
| "py_float B (JList xs) = Inl TypeError"
| "py_float B (JDict kvs) = Inl TypeError"

fun py_int :: "builtins \<Rightarrow> json \<Rightarrow> pyerr + int" where
  "py_int B JNull = Inl TypeError"
| "py_int B (JBool b) = Inr (if b then 1 else 0)"
| "py_int B (JInt n) = Inr n"
| "py_int B (JFloat f) = int_of_float f"
| "py_int B (JStr s) = (case str_to_int B s of None \<Rightarrow> Inl ValueError | Some n \<Rightarrow> Inr n)"
| "py_int B (JList xs) = Inl TypeError"
| "py_int B (JDict kvs) = Inl TypeError"

definition py_str :: "builtins \<Rightarrow> json \<Rightarrow> string" where
  "py_str B x = (case x of JStr s \<Rightarrow> s | _ \<Rightarrow> repr_of B x)"

section \<open>Weather client (weather\_to\_s3.py)\<close>

text \<open>
  \<open>WeatherData\<close>. The fields carry the prefix \<open>w_\<close>; \<open>w_lat\<close> and \<open>w_lon\<close> are the
  entries of \<open>coordinates\<close>, \<open>w_raw_id\<close> and \<open>w_raw_dt\<close> those of \<open>raw_source\<close>. The
  city and the country are whatever the response holds under \<open>name\<close> and
  \<open>sys.country\<close>.
\<close>

record weather_data =
  w_city :: json
  w_country :: json
  w_lat :: pyfloat
  w_lon :: pyfloat
  w_temperature_c :: pyfloat
  w_feels_like_c :: pyfloat
  w_humidity :: int
  w_pressure_hpa :: int
  w_weather_main :: string
  w_weather_description :: string
  w_wind_speed_ms :: pyfloat
  w_timestamp_utc :: string
  w_raw_id :: json
  w_raw_dt :: json

text \<open>
  What a fetch can raise: a \<open>WeatherAPIError\<close> with its \<open>status_code\<close> and
  \<open>retriable\<close> flag (the message is not modelled), or any other exception, which no
  handler of the weather client catches.
\<close>

datatype fetch_exn = WeatherAPIError "int option" bool | Uncaught pyerr

text \<open>\<open>kelvin_to_celsius\<close>: \<open>kelvin - 273.15\<close>, with the binary64 value of 273.15.\<close>

definition kelvin_to_celsius :: "pyfloat \<Rightarrow> pyfloat" where
  "kelvin_to_celsius kelvin = fsub kelvin (rnd (27315 / 100))"

text \<open>\<open>_classify_retriable\<close>.\<close>

definition classify_retriable :: "int option \<Rightarrow> bool" where
  "classify_retriable status_code =
     (case status_code of
        None \<Rightarrow> True
      | Some c \<Rightarrow> if c = 429 then True else if 500 \<le> c \<and> c \<le> 599 then True else False)"

text \<open>
  The outcome of \<open>requests.get\<close>: a \<open>RequestException\<close>, or a response with its status
  code and its body (\<open>None\<close> when the body is not valid JSON).
\<close>

datatype http_result = TransportError | HttpResponse int "json option"

text \<open>\<open>call_openweather_api\<close>, given the outcome of the request; it returns the body.\<close>

definition call_openweather_api :: "http_result \<Rightarrow> fetch_exn + json option" where
  "call_openweather_api res =
     (case res of
        TransportError \<Rightarrow> Inl (WeatherAPIError None True)
      | HttpResponse status body \<Rightarrow>
          if \<not> (200 \<le> status \<and> status < 300)
          then Inl (WeatherAPIError (Some status) (classify_retriable (Some status)))
          else Inr body)"

text \<open>\<open>dt.isoformat()\<close> of a \<open>datetime\<close> in UTC.\<close>

definition isoformat :: "datetime \<Rightarrow> string" where
  "isoformat dt =
     zpad 4 (year dt) @ ''-'' @ zpad 2 (month dt) @ ''-'' @ zpad 2 (day dt) @ ''T''
     @ zpad 2 (hour dt) @ '':'' @ zpad 2 (minute dt) @ '':'' @ zpad 2 (second dt)
     @ (if microsecond dt = 0 then [] else ''.'' @ zpad 6 (microsecond dt))
     @ ''+00:00''"

text \<open>
  The second \<open>try\<close> block of \<open>parse_weather_response\<close>: the statements and the entries
  of the result in the order Python evaluates them; the first exception ends the block.
\<close>

definition extract_weather ::
  "builtins \<Rightarrow> string \<Rightarrow> json \<Rightarrow> datetime \<Rightarrow> pyerr + weather_data" where
  "extract_weather B city data now =
     bnd (subscript_str data ''main'') (\<lambda>main.
     bnd (get_method data ''wind'' (JDict [])) (\<lambda>wind.
     bnd (get_method data ''weather'' (JList [])) (\<lambda>weather_list.
     bnd (if truthy weather_list then subscript_0 weather_list else Inr (JDict []))
       (\<lambda>weather_entry.
     bnd (bnd (subscript_str main ''temp'') (py_float B)) (\<lambda>temp_k.
     bnd (bnd (get_method main ''feels_like'' (JFloat temp_k)) (py_float B)) (\<lambda>feels_k.
     bnd (get_method data ''name'' JNull) (\<lambda>name.
     bnd (bnd (get_method data ''sys'' JNull)
            (\<lambda>sys. get_method (py_or sys (JDict [])) ''country'' JNull)) (\<lambda>country.
     bnd (bnd (bnd (get_method data ''coord'' JNull)
                 (\<lambda>coord. get_method (py_or coord (JDict [])) ''lat'' (JFloat (Fin 0))))
            (py_float B)) (\<lambda>lat.
     bnd (bnd (bnd (get_method data ''coord'' JNull)
                 (\<lambda>coord. get_method (py_or coord (JDict [])) ''lon'' (JFloat (Fin 0))))
            (py_float B)) (\<lambda>lon.
     bnd (bnd (get_method main ''humidity'' (JInt 0)) (py_int B)) (\<lambda>humidity.
     bnd (bnd (get_method main ''pressure'' (JInt 0)) (py_int B)) (\<lambda>pressure.
     bnd (get_method weather_entry ''main'' (JStr [])) (\<lambda>wmain.
     bnd (get_method weather_entry ''description'' (JStr [])) (\<lambda>wdesc.
     bnd (bnd (get_method wind ''speed'' (JFloat (Fin 0))) (py_float B)) (\<lambda>speed.
     bnd (get_method data ''id'' JNull) (\<lambda>rid.
     bnd (get_method data ''dt'' JNull) (\<lambda>rdt.
     Inr \<lparr>w_city = py_or name (JStr city),
          w_country = country,
          w_lat = lat,
          w_lon = lon,
          w_temperature_c = kelvin_to_celsius temp_k,
          w_feels_like_c = kelvin_to_celsius feels_k,
          w_humidity = humidity,
          w_pressure_hpa = pressure,
          w_weather_main = py_str B wmain,
          w_weather_description = py_str B wdesc,
          w_wind_speed_ms = speed,
          w_timestamp_utc = isoformat now,
          w_raw_id = rid,
          w_raw_dt = rdt\<rparr>)))))))))))))))))"

text \<open>
  \<open>parse_weather_response\<close>: a body that is not JSON is a retriable
  \<open>WeatherAPIError\<close>; a \<open>KeyError\<close>, \<open>TypeError\<close> or \<open>ValueError\<close> of the second block
  becomes a \<open>WeatherAPIError\<close> that is not retriable; any other exception leaves the
  function as it is.
\<close>

definition parse_weather_response ::
  "builtins \<Rightarrow> string \<Rightarrow> json option \<Rightarrow> datetime \<Rightarrow> fetch_exn + weather_data" where
  "parse_weather_response B city resp now =
     (case resp of
        None \<Rightarrow> Inl (WeatherAPIError None True)
      | Some data \<Rightarrow>
          (case extract_weather B city data now of
             Inr result \<Rightarrow> Inr result
           | Inl exc \<Rightarrow>
               if exc = KeyError \<or> exc = TypeError \<or> exc = ValueError
               then Inl (WeatherAPIError None False)
               else Inl (Uncaught exc)))"

section \<open>The outside world of the ingestion run\<close>

text \<open>
  The collaborators are oracles: the \<open>n\<close>-th HTTP request of the run (for a city, with
  an API key) has an outcome, the \<open>n\<close>-th reading of the clock gives a time, the \<open>n\<close>-th
  \<open>put_object\<close> (for a bucket and a key) succeeds or raises a \<open>ClientError\<close> or
  \<open>BotoCoreError\<close>, and building the S3 client succeeds or not.
\<close>

record env =
  http_get :: "nat \<Rightarrow> string \<Rightarrow> string \<Rightarrow> http_result"
  utcnow :: "nat \<Rightarrow> datetime"
  put_object :: "nat \<Rightarrow> string \<Rightarrow> string \<Rightarrow> bool"
  s3_client_ok :: bool

text \<open>
  The state of a run: how many requests, clock readings and uploads were made, the
  durations slept so far, and the objects stored (bucket, key, payload).
\<close>

record world =
  n_requests :: nat
  n_clock :: nat
  n_puts :: nat
  slept :: "pyfloat list"
  stored :: "(string \<times> string \<times> weather_data) list"

definition world0 :: world where
  "world0 = \<lparr>n_requests = 0, n_clock = 0, n_puts = 0, slept = [], stored = []\<rparr>"

record config =
  openweather_api_key :: string
  s3_bucket_name :: string
  cities :: "string list"
  s3_log_prefix :: "string option"

section \<open>Retry wrapper (weather\_to\_s3.py)\<close>

text \<open>
  The body of the \<open>try\<close> in \<open>fetch_weather_with_retry\<close>: one request, then the
  parsing of the response. \<open>parse_weather_response\<close> reads the clock for the
  \<open>timestamp_utc\<close> entry, after every entry that can raise, so the clock is read exactly
  when the parsing succeeds.
\<close>

definition attempt_fetch ::
  "builtins \<Rightarrow> env \<Rightarrow> string \<Rightarrow> config \<Rightarrow> world \<Rightarrow> (fetch_exn + weather_data) \<times> world" where
  "attempt_fetch B E city cfg w =
     (let res = http_get E (n_requests w) city (openweather_api_key cfg);
          w1 = w\<lparr>n_requests := n_requests w + 1\<rparr>
      in (case call_openweather_api res of
            Inl exc \<Rightarrow> (Inl exc, w1)
          | Inr resp \<Rightarrow>
              (case parse_weather_response B city resp (utcnow E (n_clock w1)) of
                 Inl exc \<Rightarrow> (Inl exc, w1)
               | Inr result \<Rightarrow> (Inr result, w1\<lparr>n_clock := n_clock w1 + 1\<rparr>))))"

text \<open>\<open>time.sleep(backoff)\<close>, for a duration that \<open>time.sleep\<close> accepts.\<close>

definition do_sleep :: "pyfloat \<Rightarrow> world \<Rightarrow> world" where
  "do_sleep d w = w\<lparr>slept := slept w @ [d]\<rparr>"

text \<open>
  The \<open>while\<close> loop of \<open>fetch_weather_with_retry\<close>: the attempt counter, the
  backoff that doubles after each sleep, the immediate return on an error that is not
  retriable, and no sleep after the last attempt.
\<close>

text \<open>
  Modelled from the spec: the end of \<open>fetch_weather_with_retry\<close> is missing, the file
  is cut off inside the first statement of the handler \<open>except Exception\<close>. When the
  loop ends without a record the function returns \<open>None\<close> ("terminal failure yields
  no record produced"). The specification does not say what the cut-off handler does
  after logging, so that is the parameter \<open>abort_unexpected\<close>: return \<open>None\<close>, or go
  on with the next attempt.
\<close>

function retry_loop ::
  "builtins \<Rightarrow> env \<Rightarrow> bool \<Rightarrow> string \<Rightarrow> config \<Rightarrow> int \<Rightarrow> int \<Rightarrow> pyfloat \<Rightarrow> world
   \<Rightarrow> weather_data option \<times> world" where
  "retry_loop B E abort_unexpected city cfg max_attempts attempt backoff w =
     (if attempt < max_attempts
      then (case attempt_fetch B E city cfg w of
              (Inr result, w1) \<Rightarrow> (Some result, w1)
            | (Inl (WeatherAPIError status retriable), w1) \<Rightarrow>
                if \<not> retriable then (None, w1)
                else if attempt + 1 < max_attempts
                then retry_loop B E abort_unexpected city cfg max_attempts (attempt + 1)
                       (fmul backoff (Fin 2)) (do_sleep backoff w1)
                else retry_loop B E abort_unexpected city cfg max_attempts (attempt + 1)
                       backoff w1
            | (Inl (Uncaught exc), w1) \<Rightarrow>
                if abort_unexpected then (None, w1)
                else retry_loop B E abort_unexpected city cfg max_attempts (attempt + 1)
                       backoff w1)
      else (None, w))"
  by pat_completeness auto
termination
  by (relation "measure (\<lambda>(B, E, a, city, cfg, max_attempts, attempt, backoff, w).
        nat (max_attempts - attempt))") auto

declare retry_loop.simps [simp del]

definition fetch_weather_with_retry ::
  "builtins \<Rightarrow> env \<Rightarrow> bool \<Rightarrow> string \<Rightarrow> config \<Rightarrow> int \<Rightarrow> pyfloat \<Rightarrow> world
   \<Rightarrow> weather_data option \<times> world" where
  "fetch_weather_with_retry B E abort_unexpected city cfg max_attempts initial_backoff_seconds w =
     retry_loop B E abort_unexpected city cfg max_attempts 0 initial_backoff_seconds w"

section \<open>Ingestion pipeline (weather\_to\_s3.py)\<close>










section \<open>What happens to each city, for the statements about the pipeline\<close>





section \<open>Analytics (weather\_analytics.py)\<close>

text \<open>
  The object store as the analytics reads it: the keys that
  \<open>list_objects_for_prefix\<close> returns for a prefix, and what \<open>fetch_json\<close> returns for
  a key (\<open>None\<close> when the download or the parsing fails).
\<close>

record store =
  list_objects_for_prefix :: "string \<Rightarrow> string list"
  fetch_json :: "string \<Rightarrow> json option"

definition prefix_for_date :: "datetime \<Rightarrow> string" where
  "prefix_for_date dt = strftime ''%Y/%m/%d/'' dt"

text \<open>\<open>isinstance(x, (int, float))\<close>: a \<open>bool\<close> is an \<open>int\<close>.\<close>

fun is_number :: "json \<Rightarrow> bool" where
  "is_number (JBool b) = True"
| "is_number (JInt n) = True"
| "is_number (JFloat f) = True"
| "is_number x = False"

text \<open>
  The body of the inner loop of \<open>main\<close> for one listed key. \<open>city_stats\<close> is a
  \<open>defaultdict(CityStats)\<close>: reading a missing city gives fresh statistics. Every
  \<open>continue\<close> leaves the statistics as they are.
\<close>

definition process_object ::
  "builtins \<Rightarrow> store \<Rightarrow> string option \<Rightarrow> (string \<rightharpoonup> city_stats) \<Rightarrow> string
   \<Rightarrow> pyerr + (string \<rightharpoonup> city_stats)" where
  "process_object B S city_filter city_stats key =
     (if \<not> key_passes_filter city_filter key then Inr city_stats
      else (case fetch_json S key of
              None \<Rightarrow> Inr city_stats
            | Some doc \<Rightarrow>
                if \<not> truthy doc then Inr city_stats
                else bnd (get_method doc ''temperature_c'' JNull) (\<lambda>temp.
                     bnd (get_method doc ''city'' JNull) (\<lambda>c.
                     (let city_name = py_str B (py_or c (JStr ''unknown''))
                      in if \<not> is_number temp then Inr city_stats
                         else bnd (py_float B temp) (\<lambda>t.
                              Inr (city_stats(city_name \<mapsto>
                                     update_stats
                                       (case city_stats city_name of
                                          None \<Rightarrow> new_city_stats
                                        | Some st \<Rightarrow> st) t))))))))"

text \<open>The inner loop over the listed objects and the outer loop over the days.\<close>

fun process_objects ::
  "builtins \<Rightarrow> store \<Rightarrow> string option \<Rightarrow> (string \<rightharpoonup> city_stats) \<Rightarrow> string list
   \<Rightarrow> pyerr + (string \<rightharpoonup> city_stats)" where
  "process_objects B S city_filter city_stats [] = Inr city_stats"
| "process_objects B S city_filter city_stats (key # keys) =
     bnd (process_object B S city_filter city_stats key)
       (\<lambda>city_stats'. process_objects B S city_filter city_stats' keys)"

fun process_days ::
  "builtins \<Rightarrow> store \<Rightarrow> string option \<Rightarrow> (string \<rightharpoonup> city_stats) \<Rightarrow> datetime list
   \<Rightarrow> pyerr + (string \<rightharpoonup> city_stats)" where
  "process_days B S city_filter city_stats [] = Inr city_stats"
| "process_days B S city_filter city_stats (dt # dts) =
     bnd (process_objects B S city_filter city_stats
            (list_objects_for_prefix S (prefix_for_date dt)))
       (\<lambda>city_stats'. process_days B S city_filter city_stats' dts)"

text \<open>
  The aggregation of \<open>main\<close>, for the \<open>--city\<close> argument and the days that
  \<open>date_range\<close> yields.
\<close>

definition aggregate ::
  "builtins \<Rightarrow> store \<Rightarrow> string option \<Rightarrow> datetime list \<Rightarrow> pyerr + (string \<rightharpoonup> city_stats)" where
  "aggregate B S city days =
     process_days B S (normalize_city_for_filter city) Map.empty days"

section \<open>Concrete scenarios\<close>

text \<open>
  Values at which the statements below are exercised: the built-ins with a plain left
  fold for \<open>sum\<close>, a clock that always shows 2026-02-18T14:05:09Z, a response body
  for 288.15 K, and a configuration with three cities.
\<close>

definition demo_builtins :: builtins where
  "demo_builtins = \<lparr>str_to_float = (\<lambda>s. None), str_to_int = (\<lambda>s. None),
                     repr_of = (\<lambda>x. []), sum_floats = foldl fadd (Fin 0)\<rparr>"

definition demo_now :: datetime where
  "demo_now = \<lparr>year = 2026, month = 2, day = 18, hour = 14, minute = 5, second = 9,
                microsecond = 0\<rparr>"

definition demo_body :: json where
  "demo_body = JDict [(''name'', JStr ''Somewhere''),
                      (''main'', JDict [(''temp'', JFloat (rnd (28815 / 100)))])]"

definition demo_config :: config where
  "demo_config = \<lparr>openweather_api_key = ''k'', s3_bucket_name = ''b'',
                   cities = [''Oslo'', ''City500'', ''New York''], s3_log_prefix = None\<rparr>"

text \<open>A server that fails twice (HTTP 503, then a transport error) and then answers.\<close>

definition flaky_env :: env where
  "flaky_env = \<lparr>http_get = (\<lambda>n c k. if n = 0 then HttpResponse 503 None
                                       else if n = 1 then TransportError
                                       else HttpResponse 200 (Some demo_body)),
                 utcnow = (\<lambda>n. demo_now),
                 put_object = (\<lambda>n b k. True),
                 s3_client_ok = True\<rparr>"

text \<open>A server that answers HTTP 404 to every request.\<close>

definition not_found_env :: env where
  "not_found_env = \<lparr>http_get = (\<lambda>n c k. HttpResponse 404 None),
                     utcnow = (\<lambda>n. demo_now),
                     put_object = (\<lambda>n b k. True),
                     s3_client_ok = True\<rparr>"



text \<open>
  A store with one object, written for the city "London", whose record names the city
  "Greater London".
\<close>

definition demo_store :: store where
  "demo_store = \<lparr>list_objects_for_prefix =
                    (\<lambda>p. if p = ''2026/02/18/'' then [''2026/02/18/london_140509.json''] else []),
                  fetch_json =
                    (\<lambda>k. if k = ''2026/02/18/london_140509.json''
                          then Some (JDict [(''city'', JStr ''Greater London''),
                                            (''temperature_c'', JFloat (Fin 15))])
                          else None)\<rparr>"

section \<open>Properties of the string model\<close>













lemma lower_char_underscore: "lower_char c = CHR ''_'' \<longleftrightarrow> c = CHR ''_''"
proof
  assume "lower_char c = CHR ''_''"
  then have "(of_char (lower_char c) :: nat) = 95" by simp
  then have "(of_char c :: nat) = 95"
    by (auto simp: lower_char_def py_isupper_def Let_def split: if_splits)
  then have "(of_char c :: nat) = of_char (CHR ''_'')" by simp
  then show "c = CHR ''_''" by (simp only: of_char_eq_iff)
next
  assume "c = CHR ''_''" then show "lower_char c = CHR ''_''"
    by (simp add: lower_char_def py_isupper_def)
qed

lemma strftime_ymd:
  "strftime ''%Y/%m/%d'' dt = zpad 4 (year dt) @ ''/'' @ zpad 2 (month dt) @ ''/'' @ zpad 2 (day dt)"
  by (simp add: directive_def)

lemma strftime_hms: "strftime ''H%M%S'' dt = ''H'' @ zpad 2 (minute dt) @ zpad 2 (second dt)"
  by (simp add: directive_def)

section \<open>City normalization\<close>



section \<open>Storage key\<close>

text \<open>
  C1. The key built for "New York" at 2026-02-18T14:05:09Z. The time part is formatted
  with \<open>"H%M%S"\<close>: the letter H, then minute and second; the hour is not in the key, so
  the key is not \<open>2026/02/18/new_york_140509.json\<close>.
\<close>

theorem build_s3_key_new_york_literal_H:
  "build_s3_key ''New York''
     \<lparr>year = 2026, month = 2, day = 18, hour = 14, minute = 5, second = 9, microsecond = 0\<rparr>
   = ''2026/02/18/new_york_H0509.json''"
  by code_simp

section \<open>Listing prefix\<close>

text \<open>
  C7, as stated: the prefix for date "2026-02-18" and city "New York" would be
  \<open>2026/02/18//new_york_\<close>. It is not: the date part carries no trailing slash.
\<close>

theorem build_prefix_not_double_slash:
  "build_prefix_for_date_and_city (Some ''2026-02-18'') (Some ''New York'')
   \<noteq> Inr ''2026/02/18//new_york_''"
  by code_simp

text \<open>
  C7, amended. With a date that parses and a non-empty city, the prefix is the date
  part \<open>YYYY/MM/DD\<close> (no trailing slash), one \<open>/\<close>, the normalized city and an
  underscore.
\<close>

theorem build_prefix_date_and_city:
  assumes "strptime_ymd ds = Inr dt" and "c \<noteq> []"
  shows "build_prefix_for_date_and_city (Some ds) (Some c)
         = Inr (zpad 4 (year dt) @ ''/'' @ zpad 2 (month dt) @ ''/'' @ zpad 2 (day dt)
                @ ''/'' @ normalize_city_for_key c @ ''_'')"
proof -
  have "ds \<noteq> []" using assms(1) by (auto simp: strptime_ymd_def)
  then show ?thesis using assms
    by (simp add: build_prefix_for_date_and_city_def normalize_city_for_key_def
        strftime_ymd del: strftime.simps)
qed

theorem build_prefix_date_and_city_witness:
  "build_prefix_for_date_and_city (Some ''2026-02-18'') (Some ''New York'')
   = Inr ''2026/02/18/new_york_''"
proof -
  have p: "strptime_ymd ''2026-02-18''
           = Inr \<lparr>year = 2026, month = 2, day = 18, hour = 0, minute = 0, second = 0,
                   microsecond = 0\<rparr>"
    by code_simp
  have c: "''New York'' \<noteq> []" by simp
  have z: "zpad 4 2026 = ''2026''" "zpad 2 2 = ''02''" "zpad 2 18 = ''18''"
    by code_simp+
  have n: "normalize_city_for_key ''New York'' = ''new_york''" by code_simp
  show ?thesis
    using build_prefix_date_and_city[OF p c] z n by simp
qed

section \<open>City filter of the analytics\<close>

lemma filter_with_underscore_never_matches:
  assumes "CHR ''_'' \<in> set f"
  shows "key_passes_filter (Some f) key = False"
proof -
  let ?p = "split1_first (CHR ''_'') (rsplit1_last (CHR ''/'') key)"
  have "CHR ''_'' \<notin> set ?p"
    unfolding split1_first_def by (auto dest: set_takeWhileD)
  then have "CHR ''_'' \<notin> set (lower ?p)"
    unfolding lower_def by (metis (no_types) imageE list.set_map lower_char_underscore)
  with assms have "lower ?p \<noteq> f" by auto
  moreover from assms have "f \<noteq> []" by auto
  ultimately show ?thesis by (simp add: key_passes_filter_def Let_def)
qed

text \<open>
  C2. With the filter "New York", the listed key \<open>2026/02/18/new_york_140509.json\<close>
  is skipped: the city part of the file name is cut at the first underscore, so it is
  \<open>new\<close>, not \<open>new_york\<close>.
\<close>

theorem city_filter_rejects_new_york_key:
  "\<not> key_passes_filter (normalize_city_for_filter (Some ''New York''))
        ''2026/02/18/new_york_140509.json''"
  by code_simp

section \<open>Properties of the per-city statistics\<close>

lemma upd_count: "count (update_stats s t) = count s + 1"
  by (simp add: update_stats_def Let_def split: option.splits)

lemma upd_sum: "temp_sum (update_stats s t) = fadd (temp_sum s) t"
  by (simp add: update_stats_def Let_def split: option.splits)

lemma upd_min: "temp_min (update_stats s t) = pick flt (temp_min s) t"
  by (simp add: update_stats_def pick_def Let_def split: option.splits)

lemma upd_max: "temp_max (update_stats s t) = pick (\<lambda>x y. flt y x) (temp_max s) t"
  by (simp add: update_stats_def pick_def Let_def split: option.splits)

lemma fold_count: "count (foldl update_stats s ts) = count s + int (length ts)"
  by (induction ts arbitrary: s) (simp_all add: upd_count)

lemma fold_sum: "temp_sum (foldl update_stats s ts) = foldl fadd (temp_sum s) ts"
  by (induction ts arbitrary: s) (simp_all add: upd_sum)

lemma fold_min: "temp_min (foldl update_stats s ts) = foldl (pick flt) (temp_min s) ts"
  by (induction ts arbitrary: s) (simp_all add: upd_min)

lemma fold_max:
  "temp_max (foldl update_stats s ts) = foldl (pick (\<lambda>x y. flt y x)) (temp_max s) ts"
  by (induction ts arbitrary: s) (simp_all add: upd_max)

lemma flt_irrefl: "\<not> flt x x"
  by (cases x) simp_all

lemma flt_trans: "flt x y \<Longrightarrow> flt y z \<Longrightarrow> flt x z"
  by (cases x; cases y; cases z) simp_all

lemma flt_total: "x \<noteq> NaN \<Longrightarrow> y \<noteq> NaN \<Longrightarrow> flt x y \<or> x = y \<or> flt y x"
  by (cases x; cases y) auto

lemma pick_fold_best:
  assumes irrefl: "\<And>x. \<not> lt x x"
    and trans: "\<And>x y z. lt x y \<Longrightarrow> lt y z \<Longrightarrow> lt x z"
    and total: "\<And>x y. x \<noteq> NaN \<Longrightarrow> y \<noteq> NaN \<Longrightarrow> lt x y \<or> x = y \<or> lt y x"
  shows "NaN \<notin> set ts \<union> set_option acc \<Longrightarrow> ts \<noteq> [] \<or> acc \<noteq> None \<Longrightarrow>
         \<exists>r. foldl (pick lt) acc ts = Some r \<and> r \<in> set ts \<union> set_option acc
              \<and> (\<forall>t \<in> set ts \<union> set_option acc. \<not> lt t r)"
proof (induction ts arbitrary: acc)
  case Nil
  then obtain a where "acc = Some a" by auto
  then show ?case by (simp add: irrefl)
next
  case (Cons t ts)
  have n: "t \<noteq> NaN" using Cons.prems(1) by auto
  define m where "m = (case acc of None \<Rightarrow> t | Some m0 \<Rightarrow> if lt t m0 then t else m0)"
  have m: "pick lt acc t = Some m"
    by (simp add: pick_def m_def split: option.splits)
  have mn: "m \<noteq> NaN"
  proof (cases acc)
    case None then show ?thesis using n by (simp add: m_def)
  next
    case (Some m0)
    then have "m0 \<noteq> NaN" using Cons.prems(1) by auto
    then show ?thesis using n Some by (simp add: m_def)
  qed
  have p1: "NaN \<notin> set ts \<union> set_option (Some m)" using Cons.prems(1) mn by auto
  have p2: "ts \<noteq> [] \<or> Some m \<noteq> None" by simp
  from Cons.IH[OF p1 p2]
  obtain r where r: "foldl (pick lt) (Some m) ts = Some r"
    and rin: "r \<in> set ts \<union> {m}" and best: "\<forall>u \<in> set ts \<union> {m}. \<not> lt u r"
    by auto
  from best have bm: "\<not> lt m r" by simp
  have tr: "\<not> lt t r"
  proof (cases "m = t")
    case True with bm show ?thesis by simp
  next
    case False
    then obtain m0 where a: "acc = Some m0" and f: "\<not> lt t m0" and mm: "m = m0"
      by (cases acc) (auto simp: m_def split: if_splits)
    show ?thesis
    proof
      assume l: "lt t r"
      from total[OF n mn] f mm False have "lt m t" by auto
      from trans[OF this l] bm show False by simp
    qed
  qed
  have ar: "\<not> lt m0 r" if a: "acc = Some m0" for m0
  proof (cases "lt t m0")
    case True
    show ?thesis
    proof
      assume "lt m0 r"
      from trans[OF True this] tr show False by simp
    qed
  next
    case False
    then have "m = m0" using a by (simp add: m_def)
    with bm show ?thesis by simp
  qed
  have min: "m = t \<or> acc = Some m"
    by (cases acc) (simp_all add: m_def)
  have 1: "r \<in> set (t # ts) \<union> set_option acc"
    using rin min by (cases acc) auto
  have 2: "\<forall>u \<in> set (t # ts) \<union> set_option acc. \<not> lt u r"
  proof
    fix u assume "u \<in> set (t # ts) \<union> set_option acc"
    then consider "u = t" | "u \<in> set ts" | "acc = Some u" by (cases acc) auto
    then show "\<not> lt u r"
    proof cases
      case 1 with tr show ?thesis by simp
    next
      case 2 with best show ?thesis by simp
    next
      case 3 then show ?thesis by (rule ar)
    qed
  qed
  have "foldl (pick lt) acc (t # ts) = Some r" using r m by simp
  with 1 2 show ?case by blast
qed

lemma pick_fold_perm:
  assumes irrefl: "\<And>x. \<not> lt x x"
    and trans: "\<And>x y z. lt x y \<Longrightarrow> lt y z \<Longrightarrow> lt x z"
    and total: "\<And>x y. x \<noteq> NaN \<Longrightarrow> y \<noteq> NaN \<Longrightarrow> lt x y \<or> x = y \<or> lt y x"
    and same: "set ts' = set ts" and nan: "NaN \<notin> set ts"
  shows "foldl (pick lt) None ts' = foldl (pick lt) None ts"
proof (cases "ts = []")
  case True
  with same show ?thesis by simp
next
  case False
  with same have ne': "ts' \<noteq> []" by auto
  have "\<exists>r. foldl (pick lt) None ts = Some r \<and> r \<in> set ts \<union> set_option None
            \<and> (\<forall>t \<in> set ts \<union> set_option None. \<not> lt t r)"
  proof (rule pick_fold_best)
    show "\<not> lt x x" for x by (rule irrefl)
    show "lt x y \<Longrightarrow> lt y z \<Longrightarrow> lt x z" for x y z by (rule trans)
    show "x \<noteq> NaN \<Longrightarrow> y \<noteq> NaN \<Longrightarrow> lt x y \<or> x = y \<or> lt y x" for x y by (rule total)
    show "NaN \<notin> set ts \<union> set_option None" using nan by simp
    show "ts \<noteq> [] \<or> None \<noteq> None" using False by simp
  qed
  then obtain r where r: "foldl (pick lt) None ts = Some r" "r \<in> set ts" "\<forall>t \<in> set ts. \<not> lt t r"
    by auto
  have "\<exists>r. foldl (pick lt) None ts' = Some r \<and> r \<in> set ts' \<union> set_option None
            \<and> (\<forall>t \<in> set ts' \<union> set_option None. \<not> lt t r)"
  proof (rule pick_fold_best)
    show "\<not> lt x x" for x by (rule irrefl)
    show "lt x y \<Longrightarrow> lt y z \<Longrightarrow> lt x z" for x y z by (rule trans)
    show "x \<noteq> NaN \<Longrightarrow> y \<noteq> NaN \<Longrightarrow> lt x y \<or> x = y \<or> lt y x" for x y by (rule total)
    show "NaN \<notin> set ts' \<union> set_option None" using nan same by simp
    show "ts' \<noteq> [] \<or> None \<noteq> None" using ne' by simp
  qed
  then obtain r' where r': "foldl (pick lt) None ts' = Some r'" "r' \<in> set ts" "\<forall>t \<in> set ts. \<not> lt t r'"
    using same by auto
  have "r \<noteq> NaN" "r' \<noteq> NaN" using r(2) r'(2) nan by auto
  from total[OF this] r(2,3) r'(2,3) have "r = r'" by auto
  with r(1) r'(1) show ?thesis by simp
qed

lemma fold_min_perm:
  assumes "set ts' = set ts" and "NaN \<notin> set ts"
  shows "temp_min (foldl update_stats new_city_stats ts')
         = temp_min (foldl update_stats new_city_stats ts)"
proof -
  have "foldl (pick flt) None ts' = foldl (pick flt) None ts"
  proof (rule pick_fold_perm)
    show "\<not> flt x x" for x by (rule flt_irrefl)
    show "flt x y \<Longrightarrow> flt y z \<Longrightarrow> flt x z" for x y z by (rule flt_trans)
    show "x \<noteq> NaN \<Longrightarrow> y \<noteq> NaN \<Longrightarrow> flt x y \<or> x = y \<or> flt y x" for x y by (rule flt_total)
  qed (use assms in auto)
  then show ?thesis by (simp add: fold_min new_city_stats_def)
qed

lemma fold_max_perm:
  assumes "set ts' = set ts" and "NaN \<notin> set ts"
  shows "temp_max (foldl update_stats new_city_stats ts')
         = temp_max (foldl update_stats new_city_stats ts)"
proof -
  have "foldl (pick (\<lambda>x y. flt y x)) None ts' = foldl (pick (\<lambda>x y. flt y x)) None ts"
  proof (rule pick_fold_perm)
    show "\<not> flt x x" for x by (rule flt_irrefl)
    show "flt y x \<Longrightarrow> flt z y \<Longrightarrow> flt z x" for x y z by (rule flt_trans)
    show "x \<noteq> NaN \<Longrightarrow> y \<noteq> NaN \<Longrightarrow> flt y x \<or> x = y \<or> flt x y" for x y
      using flt_total[of x y] by blast
  qed (use assms in auto)
  then show ?thesis by (simp add: fold_max new_city_stats_def)
qed


text \<open>
  The overflow test of \<open>rnd\<close> is the comparison of the rounded magnitude with
  \<open>2 ^ 1024\<close>: from the exponent 971 on the two are the same, and below it a
  mantissa of at most 53 bits stays under \<open>2 ^ 1024\<close>.
\<close>

lemma overflow_test:
  assumes "971 \<le> e"
  shows "(2 ^ 1024 \<le> (of_int m :: rat) * pow2 e) = (2 ^ 53 \<le> m * 2 ^ nat (e - 971))"
proof -
  define k where "k = nat (e - 971)"
  have e: "nat e = k + 971" using assms by (simp add: k_def)
  have p: "pow2 e = 2 ^ k * 2 ^ 971" using assms by (simp add: pow2_def e power_add)
  have "(2 ^ 1024 \<le> (of_int m :: rat) * pow2 e)
        = ((2 ^ 53 :: rat) * 2 ^ 971 \<le> of_int (m * 2 ^ k) * 2 ^ 971)"
    by (simp add: p mult.assoc)
  also have "\<dots> = ((2 ^ 53 :: rat) \<le> of_int (m * 2 ^ k))"
    by (rule mult_le_cancel_right_pos) simp
  also have "\<dots> = ((of_int (2 ^ 53) :: rat) \<le> of_int (m * 2 ^ k))" by simp
  also have "\<dots> = (2 ^ 53 \<le> m * 2 ^ k)" by (rule of_int_le_iff)
  finally show ?thesis by (simp add: k_def)
qed

lemma pow2_pos: "0 < pow2 e"
  by (simp add: pow2_def)

lemma pow2_le:
  assumes "e \<le> 970"
  shows "pow2 e \<le> 2 ^ 970"
proof (cases "0 \<le> e")
  case True
  then have "nat e \<le> 970" using assms by simp
  then have "(2 :: rat) ^ nat e \<le> 2 ^ 970" by (intro power_increasing) simp_all
  with True show ?thesis by (simp add: pow2_def)
next
  case False
  have "1 / (2 :: rat) ^ nat (- e) \<le> 1" by (simp add: divide_le_eq)
  also have "(1 :: rat) \<le> 2 ^ 970" by (rule one_le_power) simp
  finally show ?thesis using False by (simp add: pow2_def)
qed

lemma no_overflow_below:
  assumes "e < 971" and "m \<le> 2 ^ 53"
  shows "(of_int m :: rat) * pow2 e < 2 ^ 1024"
proof -
  have "(of_int m :: rat) \<le> of_int (2 ^ 53)" using assms(2) by (simp only: of_int_le_iff)
  then have m: "(of_int m :: rat) \<le> 2 ^ 53" by simp
  have "(of_int m :: rat) * pow2 e \<le> 2 ^ 53 * pow2 e"
    using m pow2_pos[of e] by (intro mult_right_mono) simp_all
  also have "\<dots> \<le> 2 ^ 53 * 2 ^ 970"
    using pow2_le[of e] assms(1) by (intro mult_left_mono) simp_all
  also have "\<dots> < (2 :: rat) ^ 1024" by simp
  finally show ?thesis .
qed

lemma bitlen_pos: "0 < a \<Longrightarrow> 0 < bitlen a"
  by (subst bitlen.simps) simp

lemma bitlen_le: "a < 2 ^ k \<Longrightarrow> bitlen a \<le> k"
proof (induction k arbitrary: a)
  case 0
  then have "a \<le> 0" by simp
  then show ?case by (subst bitlen.simps) simp
next
  case (Suc k)
  show ?case
  proof (cases "a \<le> 0")
    case True
    then show ?thesis by (subst bitlen.simps) simp
  next
    case False
    from Suc.prems have "a div 2 < 2 ^ k" by simp
    then have "bitlen (a div 2) \<le> k" by (rule Suc.IH)
    with False show ?thesis by (subst bitlen.simps) simp
  qed
qed

lemma round_half_even_of_int: "round_half_even (of_int z) = z"
  by (simp add: round_half_even_def)

lemma rnd_of_int:
  assumes "\<bar>n\<bar> < 2 ^ 53"
  shows "rnd (of_int n) = Fin (of_int n)"
proof (cases "n = 0")
  case True
  then show ?thesis by (simp add: rnd_def)
next
  case False
  define a where "a = \<bar>n\<bar>"
  have apos: "0 < a" using False by (simp add: a_def)
  define L where "L = bitlen a"
  have L1: "0 < L" unfolding L_def using apos by (rule bitlen_pos)
  have L2: "L \<le> 53" unfolding L_def a_def using assms by (rule bitlen_le)
  define k where "k = 53 - L"
  have il: "ilog2 (of_int a) = int L - 1"
    using apos by (simp add: ilog2_def L_def)
  have e: "max (ilog2 (of_int a) - 52) (- 1074) = - int k"
    using L1 L2 by (simp add: il k_def)
  have p: "pow2 (- int k) = 1 / 2 ^ k"
    by (cases "k = 0") (simp_all add: pow2_def)
  have q: "(of_int a :: rat) / pow2 (- int k) = of_int (a * 2 ^ k)"
    by (simp add: p)
  have m: "round_half_even ((of_int a :: rat) / pow2 (- int k)) = a * 2 ^ k"
    unfolding q by (rule round_half_even_of_int)
  have v: "(of_int (a * 2 ^ k) :: rat) * pow2 (- int k) = of_int a"
    by (simp add: p)
  have abs: "\<bar>of_int n :: rat\<bar> = of_int a" by (simp add: a_def)
  have nz: "(of_int n :: rat) \<noteq> 0" using False by simp
  have "rnd (of_int n) = Fin (if 0 < (of_int n :: rat) then of_int a else - of_int a)"
    unfolding rnd_def Let_def abs e m v using nz by simp
  also have "\<dots> = Fin (of_int n)" by (simp add: a_def)
  finally show ?thesis .
qed

lemma fold_fadd_ints:
  "\<bar>a\<bar> + (\<Sum>k\<leftarrow>ks. \<bar>k\<bar>) < 2 ^ 53 \<Longrightarrow>
   foldl fadd (Fin (of_int a)) (map (\<lambda>k. Fin (of_int k)) ks) = Fin (of_int (a + sum_list ks))"
proof (induction ks arbitrary: a)
  case Nil
  then show ?case by simp
next
  case (Cons k ks)
  have b: "\<bar>a + k\<bar> < 2 ^ 53"
  proof -
    have "0 \<le> (\<Sum>k\<leftarrow>ks. \<bar>k\<bar>)" by (rule sum_list_nonneg) auto
    with Cons.prems show ?thesis by simp
  qed
  have "fadd (Fin (of_int a)) (Fin (of_int k)) = rnd (of_int (a + k))" by simp
  also have "\<dots> = Fin (of_int (a + k))" using b by (rule rnd_of_int)
  finally have s: "fadd (Fin (of_int a)) (Fin (of_int k)) = Fin (of_int (a + k))" .
  have "\<bar>a + k\<bar> + (\<Sum>k\<leftarrow>ks. \<bar>k\<bar>) < 2 ^ 53" using Cons.prems by simp
  from Cons.IH[OF this] s show ?case by (simp add: add.assoc)
qed

lemma fold_ints_perm:
  assumes p: "mset ks' = mset ks" and b: "(\<Sum>k\<leftarrow>ks. \<bar>k\<bar>) < 2 ^ 53"
  shows "foldl update_stats new_city_stats (map (\<lambda>k. Fin (of_int k)) ks')
         = foldl update_stats new_city_stats (map (\<lambda>k. Fin (of_int k)) ks)"
proof -
  let ?f = "\<lambda>k::int. Fin (of_int k)"
  have len: "length ks' = length ks" using p by (rule mset_eq_length)
  have "set ks' = set ks" using p by (rule mset_eq_setD)
  then have st: "set (map ?f ks') = set (map ?f ks)" by simp
  have nn: "NaN \<notin> set (map ?f ks)" by auto
  have "sum_mset (mset ks') = sum_mset (mset ks)" using p by simp
  then have sm: "sum_list ks' = sum_list ks" by (simp only: sum_mset_sum_list)
  have "mset (map abs ks') = mset (map abs ks)" using p by simp
  then have "sum_mset (mset (map abs ks')) = sum_mset (mset (map abs ks))" by simp
  then have "(\<Sum>k\<leftarrow>ks'. \<bar>k\<bar>) = (\<Sum>k\<leftarrow>ks. \<bar>k\<bar>)" by (simp only: sum_mset_sum_list)
  with b have b': "(\<Sum>k\<leftarrow>ks'. \<bar>k\<bar>) < 2 ^ 53" by simp
  have "foldl fadd (Fin (of_int 0)) (map ?f ks) = Fin (of_int (0 + sum_list ks))"
    using b by (intro fold_fadd_ints) simp
  then have s1: "temp_sum (foldl update_stats new_city_stats (map ?f ks)) = Fin (of_int (sum_list ks))"
    by (simp add: fold_sum new_city_stats_def)
  have "foldl fadd (Fin (of_int 0)) (map ?f ks') = Fin (of_int (0 + sum_list ks'))"
    using b' by (intro fold_fadd_ints) simp
  then have s2: "temp_sum (foldl update_stats new_city_stats (map ?f ks')) = Fin (of_int (sum_list ks'))"
    by (simp add: fold_sum new_city_stats_def)
  show ?thesis
  proof (rule city_stats.equality)
    show "count (foldl update_stats new_city_stats (map ?f ks'))
          = count (foldl update_stats new_city_stats (map ?f ks))"
      by (simp add: fold_count len)
    show "temp_sum (foldl update_stats new_city_stats (map ?f ks'))
          = temp_sum (foldl update_stats new_city_stats (map ?f ks))"
      by (simp add: s1 s2 sm)
    show "temp_min (foldl update_stats new_city_stats (map ?f ks'))
          = temp_min (foldl update_stats new_city_stats (map ?f ks))"
      using st nn by (rule fold_min_perm)
    show "temp_max (foldl update_stats new_city_stats (map ?f ks'))
          = temp_max (foldl update_stats new_city_stats (map ?f ks))"
      using st nn by (rule fold_max_perm)
  qed simp
qed

text \<open>
  The binary64 values nearest 0.1, 0.2, 0.3 and 273.15, as Python's
  \<open>float.as_integer_ratio\<close> gives them, and the two sums \<open>(0.1 + 0.2) + 0.3\<close> and
  \<open>(0.3 + 0.2) + 0.1\<close>, which Python prints as 0.6000000000000001 and 0.6.
\<close>

lemma binary64_examples:
  "rnd (1 / 10) = Fin (3602879701896397 / 36028797018963968)"
  "rnd (2 / 10) = Fin (3602879701896397 / 18014398509481984)"
  "rnd (3 / 10) = Fin (5404319552844595 / 18014398509481984)"
  "rnd (27315 / 100) = Fin (2402652809016115 / 8796093022208)"
  "fadd (fadd (rnd (1 / 10)) (rnd (2 / 10))) (rnd (3 / 10))
   = Fin (1351079888211149 / 2251799813685248)"
  "fadd (fadd (rnd (3 / 10)) (rnd (2 / 10))) (rnd (1 / 10))
   = Fin (5404319552844595 / 9007199254740992)"
  by code_simp+

text \<open>
  C9, as stated: every permutation of a list of temperatures yields the same final
  \<open>CityStats\<close>. The running sum is a float sum, and float addition rounds: feeding the
  binary64 values nearest 0.1, 0.2, 0.3 in this order gives the sum 0.6000000000000001,
  in the reverse order 0.6.
\<close>

theorem city_stats_sum_order_dependent:
  "foldl update_stats new_city_stats [rnd (1 / 10), rnd (2 / 10), rnd (3 / 10)]
   \<noteq> foldl update_stats new_city_stats [rnd (3 / 10), rnd (2 / 10), rnd (1 / 10)]"
proof
  assume "foldl update_stats new_city_stats [rnd (1 / 10), rnd (2 / 10), rnd (3 / 10)]
        = foldl update_stats new_city_stats [rnd (3 / 10), rnd (2 / 10), rnd (1 / 10)]"
  then have "temp_sum (foldl update_stats new_city_stats [rnd (1 / 10), rnd (2 / 10), rnd (3 / 10)])
           = temp_sum (foldl update_stats new_city_stats [rnd (3 / 10), rnd (2 / 10), rnd (1 / 10)])"
    by simp
  moreover have
    "temp_sum (foldl update_stats new_city_stats [rnd (1 / 10), rnd (2 / 10), rnd (3 / 10)])
     \<noteq> temp_sum (foldl update_stats new_city_stats [rnd (3 / 10), rnd (2 / 10), rnd (1 / 10)])"
    by code_simp
  ultimately show False by simp
qed

text \<open>
  C9, amended. For every list of temperatures without NaN, every permutation yields the
  same count, minimum and maximum. When the temperatures are integers whose absolute
  values sum to less than \<open>2 ^ 53\<close>, no addition rounds and every permutation yields the
  same \<open>CityStats\<close>, running sum included; in particular [10, 20, 30] in any order
  yields count 3, sum 60, minimum 10, maximum 30 and average 20.
\<close>

theorem city_stats_fold_order:
  "(mset ts' = mset ts \<and> NaN \<notin> set ts \<longrightarrow>
      count (foldl update_stats new_city_stats ts') = count (foldl update_stats new_city_stats ts)
      \<and> temp_min (foldl update_stats new_city_stats ts')
          = temp_min (foldl update_stats new_city_stats ts)
      \<and> temp_max (foldl update_stats new_city_stats ts')
          = temp_max (foldl update_stats new_city_stats ts))
   \<and> (mset ks' = mset ks \<and> (\<Sum>k\<leftarrow>ks. \<bar>k\<bar>) < 2 ^ 53 \<longrightarrow>
      foldl update_stats new_city_stats (map (\<lambda>k. Fin (of_int k)) ks')
      = foldl update_stats new_city_stats (map (\<lambda>k. Fin (of_int k)) ks))
   \<and> (mset js = mset [10, 20, 30] \<longrightarrow>
      foldl update_stats new_city_stats (map (\<lambda>k. Fin (of_int k)) js)
      = \<lparr>count = 3, temp_sum = Fin 60, temp_min = Some (Fin 10), temp_max = Some (Fin 30)\<rparr>
      \<and> avg_temp (foldl update_stats new_city_stats (map (\<lambda>k. Fin (of_int k)) js))
          = Inr (Fin 20))"
proof (intro conjI impI)
  assume a: "mset ts' = mset ts \<and> NaN \<notin> set ts"
  then have l: "length ts' = length ts" by (auto dest: mset_eq_length)
  from a have s: "set ts' = set ts" by (auto dest: mset_eq_setD)
  show "count (foldl update_stats new_city_stats ts')
        = count (foldl update_stats new_city_stats ts)"
    by (simp add: fold_count l)
  show "temp_min (foldl update_stats new_city_stats ts')
        = temp_min (foldl update_stats new_city_stats ts)"
    using s a by (intro fold_min_perm) auto
  show "temp_max (foldl update_stats new_city_stats ts')
        = temp_max (foldl update_stats new_city_stats ts)"
    using s a by (intro fold_max_perm) auto
next
  assume "mset ks' = mset ks \<and> (\<Sum>k\<leftarrow>ks. \<bar>k\<bar>) < 2 ^ 53"
  then show "foldl update_stats new_city_stats (map (\<lambda>k. Fin (of_int k)) ks')
             = foldl update_stats new_city_stats (map (\<lambda>k. Fin (of_int k)) ks)"
    by (intro fold_ints_perm) auto
next
  assume j: "mset js = mset [10, 20, 30]"
  have b: "(\<Sum>k\<leftarrow>[10, 20, 30 :: int]. \<bar>k\<bar>) < 2 ^ 53" by simp
  have e: "foldl update_stats new_city_stats (map (\<lambda>k. Fin (of_int k)) [10, 20, 30])
           = \<lparr>count = 3, temp_sum = Fin 60, temp_min = Some (Fin 10), temp_max = Some (Fin 30)\<rparr>"
    by code_simp
  show r: "foldl update_stats new_city_stats (map (\<lambda>k. Fin (of_int k)) js)
        = \<lparr>count = 3, temp_sum = Fin 60, temp_min = Some (Fin 10), temp_max = Some (Fin 30)\<rparr>"
    using fold_ints_perm[OF j b] e by simp
  have "avg_temp \<lparr>count = 3, temp_sum = Fin 60, temp_min = Some (Fin 10),
                   temp_max = Some (Fin 30)\<rparr> = Inr (Fin 20)"
    by code_simp
  then show "avg_temp (foldl update_stats new_city_stats (map (\<lambda>k. Fin (of_int k)) js))
             = Inr (Fin 20)"
    by (simp only: r)
qed

theorem city_stats_fold_order_witness:
  "count (foldl update_stats new_city_stats [rnd (3 / 10), rnd (2 / 10), rnd (1 / 10)])
     = count (foldl update_stats new_city_stats [rnd (1 / 10), rnd (2 / 10), rnd (3 / 10)])
   \<and> temp_min (foldl update_stats new_city_stats [rnd (3 / 10), rnd (2 / 10), rnd (1 / 10)])
     = temp_min (foldl update_stats new_city_stats [rnd (1 / 10), rnd (2 / 10), rnd (3 / 10)])
   \<and> temp_max (foldl update_stats new_city_stats [rnd (3 / 10), rnd (2 / 10), rnd (1 / 10)])
     = temp_max (foldl update_stats new_city_stats [rnd (1 / 10), rnd (2 / 10), rnd (3 / 10)])
   \<and> foldl update_stats new_city_stats (map (\<lambda>k. Fin (of_int k)) [7, - 2, 5])
     = foldl update_stats new_city_stats (map (\<lambda>k. Fin (of_int k)) [5, 7, - 2])
   \<and> foldl update_stats new_city_stats (map (\<lambda>k. Fin (of_int k)) [30, 10, 20])
     = \<lparr>count = 3, temp_sum = Fin 60, temp_min = Some (Fin 10), temp_max = Some (Fin 30)\<rparr>
   \<and> avg_temp (foldl update_stats new_city_stats (map (\<lambda>k. Fin (of_int k)) [30, 10, 20]))
     = Inr (Fin 20)"
proof -
  have m1: "mset [rnd (3 / 10), rnd (2 / 10), rnd (1 / 10)]
            = mset [rnd (1 / 10), rnd (2 / 10), rnd (3 / 10)]"
    by (simp add: add_mset_commute)
  have n1: "NaN \<notin> set [rnd (1 / 10), rnd (2 / 10), rnd (3 / 10)]"
    by code_simp
  have m2: "mset [7, - 2, 5 :: int] = mset [5, 7, - 2]"
    by (simp add: add_mset_commute)
  have b2: "(\<Sum>k\<leftarrow>[5, 7, - 2 :: int]. \<bar>k\<bar>) < 2 ^ 53" by simp
  have m3: "mset [30, 10, 20 :: int] = mset [10, 20, 30]"
    by (simp add: add_mset_commute)
  show ?thesis
    using city_stats_fold_order[of "[rnd (3 / 10), rnd (2 / 10), rnd (1 / 10)]"
        "[rnd (1 / 10), rnd (2 / 10), rnd (3 / 10)]" "[7, - 2, 5]" "[5, 7, - 2]" "[30, 10, 20]"]
      m1 n1 m2 b2 m3
    by blast
qed

section \<open>Properties of the weather client\<close>

lemma transport_error_retriable:
  "call_openweather_api TransportError = Inl (WeatherAPIError None True)"
  by (simp add: call_openweather_api_def)

lemma http_status_classification:
  "call_openweather_api (HttpResponse status body) =
     (if 200 \<le> status \<and> status < 300 then Inr body
      else Inl (WeatherAPIError (Some status) (status = 429 \<or> (500 \<le> status \<and> status \<le> 599))))"
  by (simp add: call_openweather_api_def classify_retriable_def)

lemma invalid_json_retriable:
  "parse_weather_response B city None now = Inl (WeatherAPIError None True)"
  by (simp add: parse_weather_response_def)

lemma missing_main_not_retriable:
  "map_of kvs ''main'' = None \<Longrightarrow>
   parse_weather_response B city (Some (JDict kvs)) now = Inl (WeatherAPIError None False)"
  by (simp add: parse_weather_response_def extract_weather_def bnd_def)

lemma missing_temp_not_retriable:
  assumes "map_of kvs ''main'' = Some (JDict m)" and "map_of m ''temp'' = None"
  shows "parse_weather_response B city (Some (JDict kvs)) now = Inl (WeatherAPIError None False)"
proof -
  have "extract_weather B city (JDict kvs) now = Inl KeyError \<or>
        extract_weather B city (JDict kvs) now = Inl TypeError"
    using assms
    by (cases "case map_of kvs ''weather'' of None \<Rightarrow> JList [] | Some v \<Rightarrow> v" rule: subscript_0.cases)
       (simp_all add: extract_weather_def bnd_def)
  then show ?thesis by (auto simp: parse_weather_response_def)
qed

lemma non_dict_body_not_retriable:
  "\<forall>kvs. data \<noteq> JDict kvs \<Longrightarrow>
   parse_weather_response B city (Some data) now = Inl (WeatherAPIError None False)"
  by (cases data) (simp_all add: parse_weather_response_def extract_weather_def bnd_def)

section \<open>Properties of the retry wrapper and of the pipeline\<close>

lemma attempt_requests: "n_requests (snd (attempt_fetch B E city cfg w)) = n_requests w + 1"
  by (simp add: attempt_fetch_def Let_def split: sum.splits)

lemma attempt_slept: "slept (snd (attempt_fetch B E city cfg w)) = slept w"
  by (simp add: attempt_fetch_def Let_def split: sum.splits)

lemma fmul_1_2: "fmul (Fin 1) (Fin 2) = Fin 2"
  by code_simp








section \<open>Failure classification of the weather client\<close>

text \<open>
  C4. The classification holds for transport errors, for every HTTP status and for a
  body that is not JSON (lemmas \<open>transport_error_retriable\<close>,
  \<open>http_status_classification\<close>, \<open>invalid_json_retriable\<close>), and a body without
  \<open>main\<close> or \<open>main.temp\<close> is not retriable (\<open>missing_main_not_retriable\<close>,
  \<open>missing_temp_not_retriable\<close>). But a 2xx body whose \<open>wind\<close> is a number lacks the
  expected structure and is not classified at all: \<open>wind.get\<close> raises
  \<open>AttributeError\<close>, which the handler for \<open>KeyError\<close>, \<open>TypeError\<close> and
  \<open>ValueError\<close> does not catch, so no \<open>WeatherAPIError\<close> is raised.
\<close>

theorem malformed_wind_escapes_classification:
  "parse_weather_response B city
     (Some (JDict [(''main'', JDict [(''temp'', JFloat (Fin 280))]), (''wind'', JInt 5)])) now
   = Inl (Uncaught AttributeError)"
  by (simp add: parse_weather_response_def extract_weather_def bnd_def py_or_def)

section \<open>Retry wrapper\<close>

text \<open>
  C3. With three attempts and an initial backoff of one second: when the first attempt
  raises a \<open>WeatherAPIError\<close> that is not retriable, the wrapper returns no record after
  exactly one request and without sleeping; when the first two attempts raise retriable
  errors and the third returns a record, the wrapper returns that record after exactly
  three requests and two sleeps, of 1 and then 2 seconds.
\<close>

theorem retry_attempts_and_sleeps:
  "(attempt_fetch B E city cfg w = (Inl (WeatherAPIError st False), w1) \<longrightarrow>
      fetch_weather_with_retry B E au city cfg 3 (Fin 1) w = (None, w1)
      \<and> n_requests w1 = n_requests w + 1 \<and> slept w1 = slept w)
   \<and> (attempt_fetch B E city cfg w = (Inl (WeatherAPIError s1 True), v1)
      \<and> attempt_fetch B E city cfg (do_sleep (Fin 1) v1) = (Inl (WeatherAPIError s2 True), v2)
      \<and> attempt_fetch B E city cfg (do_sleep (Fin 2) v2) = (Inr r, v3) \<longrightarrow>
      fetch_weather_with_retry B E au city cfg 3 (Fin 1) w = (Some r, v3)
      \<and> n_requests v3 = n_requests w + 3 \<and> slept v3 = slept w @ [Fin 1, Fin 2])"
proof (intro conjI impI)
  assume a: "attempt_fetch B E city cfg w = (Inl (WeatherAPIError st False), w1)"
  show "fetch_weather_with_retry B E au city cfg 3 (Fin 1) w = (None, w1)"
    unfolding fetch_weather_with_retry_def
    by (subst retry_loop.simps) (simp add: a)
  from attempt_requests[of B E city cfg w] a show "n_requests w1 = n_requests w + 1" by simp
  from attempt_slept[of B E city cfg w] a show "slept w1 = slept w" by simp
next
  assume a: "attempt_fetch B E city cfg w = (Inl (WeatherAPIError s1 True), v1)
      \<and> attempt_fetch B E city cfg (do_sleep (Fin 1) v1) = (Inl (WeatherAPIError s2 True), v2)
      \<and> attempt_fetch B E city cfg (do_sleep (Fin 2) v2) = (Inr r, v3)"
  then have a1: "attempt_fetch B E city cfg w = (Inl (WeatherAPIError s1 True), v1)"
    and a2: "attempt_fetch B E city cfg (do_sleep (Fin 1) v1) = (Inl (WeatherAPIError s2 True), v2)"
    and a3: "attempt_fetch B E city cfg (do_sleep (Fin 2) v2) = (Inr r, v3)" by auto
  have l3: "retry_loop B E au city cfg 3 2 b (do_sleep (Fin 2) v2) = (Some r, v3)" for b
    by (subst retry_loop.simps) (simp add: a3)
  have l2: "retry_loop B E au city cfg 3 1 (Fin 2) (do_sleep (Fin 1) v1) = (Some r, v3)"
    by (subst retry_loop.simps) (simp add: a2 l3 del: fmul.simps)
  show "fetch_weather_with_retry B E au city cfg 3 (Fin 1) w = (Some r, v3)"
    unfolding fetch_weather_with_retry_def
    by (subst retry_loop.simps) (simp add: a1 l2 fmul_1_2 del: fmul.simps)
  have r1: "n_requests v1 = n_requests w + 1" "slept v1 = slept w"
    using attempt_requests[of B E city cfg w] attempt_slept[of B E city cfg w] a1 by simp_all
  have r2: "n_requests v2 = n_requests v1 + 1" "slept v2 = slept v1 @ [Fin 1]"
    using attempt_requests[of B E city cfg "do_sleep (Fin 1) v1"]
      attempt_slept[of B E city cfg "do_sleep (Fin 1) v1"] a2 by (simp_all add: do_sleep_def)
  have r3: "n_requests v3 = n_requests v2 + 1" "slept v3 = slept v2 @ [Fin 2]"
    using attempt_requests[of B E city cfg "do_sleep (Fin 2) v2"]
      attempt_slept[of B E city cfg "do_sleep (Fin 2) v2"] a3 by (simp_all add: do_sleep_def)
  show "n_requests v3 = n_requests w + 3" using r1 r2 r3 by simp
  show "slept v3 = slept w @ [Fin 1, Fin 2]" using r1 r2 r3 by simp
qed

theorem retry_attempts_and_sleeps_witness:
  "fst (fetch_weather_with_retry demo_builtins not_found_env True ''Oslo'' demo_config 3 (Fin 1) world0)
     = None
   \<and> n_requests (snd (fetch_weather_with_retry demo_builtins not_found_env True ''Oslo''
                         demo_config 3 (Fin 1) world0)) = 1
   \<and> slept (snd (fetch_weather_with_retry demo_builtins not_found_env True ''Oslo''
                     demo_config 3 (Fin 1) world0)) = []
   \<and> fst (fetch_weather_with_retry demo_builtins flaky_env True ''Oslo'' demo_config 3 (Fin 1) world0)
     \<noteq> None
   \<and> n_requests (snd (fetch_weather_with_retry demo_builtins flaky_env True ''Oslo''
                         demo_config 3 (Fin 1) world0)) = 3
   \<and> slept (snd (fetch_weather_with_retry demo_builtins flaky_env True ''Oslo''
                     demo_config 3 (Fin 1) world0)) = [Fin 1, Fin 2]"
proof -
  define u1 where "u1 = snd (attempt_fetch demo_builtins not_found_env ''Oslo'' demo_config world0)"
  have n: "attempt_fetch demo_builtins not_found_env ''Oslo'' demo_config world0
           = (Inl (WeatherAPIError (Some 404) False), u1)"
    unfolding u1_def by code_simp
  define v1 where "v1 = snd (attempt_fetch demo_builtins flaky_env ''Oslo'' demo_config world0)"
  define v2 where
    "v2 = snd (attempt_fetch demo_builtins flaky_env ''Oslo'' demo_config (do_sleep (Fin 1) v1))"
  define v3 where
    "v3 = snd (attempt_fetch demo_builtins flaky_env ''Oslo'' demo_config (do_sleep (Fin 2) v2))"
  define r where
    "r = (case fst (attempt_fetch demo_builtins flaky_env ''Oslo'' demo_config
                      (do_sleep (Fin 2) v2)) of Inr x \<Rightarrow> x)"
  have a1: "attempt_fetch demo_builtins flaky_env ''Oslo'' demo_config world0
            = (Inl (WeatherAPIError (Some 503) True), v1)"
    unfolding v1_def by code_simp
  have a2: "attempt_fetch demo_builtins flaky_env ''Oslo'' demo_config (do_sleep (Fin 1) v1)
            = (Inl (WeatherAPIError None True), v2)"
    unfolding v2_def v1_def by code_simp
  have a3: "attempt_fetch demo_builtins flaky_env ''Oslo'' demo_config (do_sleep (Fin 2) v2)
            = (Inr r, v3)"
    unfolding r_def v3_def v2_def v1_def by code_simp
  have z: "n_requests world0 = 0" "slept world0 = []" by (simp_all add: world0_def)
  from retry_attempts_and_sleeps[where B = demo_builtins and E = not_found_env and city = "''Oslo''"
      and cfg = demo_config and w = world0 and st = "Some 404" and ?w1.0 = u1 and au = True] n
  have p1: "fetch_weather_with_retry demo_builtins not_found_env True ''Oslo'' demo_config 3 (Fin 1) world0
            = (None, u1)"
    "n_requests u1 = 1" "slept u1 = []"
    using z by simp_all
  from retry_attempts_and_sleeps[where B = demo_builtins and E = flaky_env and city = "''Oslo''"
      and cfg = demo_config and w = world0 and ?s1.0 = "Some 503" and ?v1.0 = v1 and ?s2.0 = None
      and ?v2.0 = v2 and r = r and ?v3.0 = v3 and au = True] a1 a2 a3
  have p2: "fetch_weather_with_retry demo_builtins flaky_env True ''Oslo'' demo_config 3 (Fin 1) world0
            = (Some r, v3)"
    "n_requests v3 = 3" "slept v3 = [Fin 1, Fin 2]"
    using z by simp_all
  show ?thesis by (simp add: p1 p2)
qed

section \<open>Ingestion pipeline\<close>



section \<open>Exit status\<close>



section \<open>Grouping of the analytics\<close>

text \<open>
  C10. A record that passes the city filter, is a non-empty JSON object and has a
  numeric \<open>temperature_c\<close> is counted in the bucket named by its own \<open>city\<close> field,
  or in the bucket \<open>unknown\<close> when that field is missing or falsy (empty). The name
  does not depend on the key or on the filter, so a record stored and filtered as
  \<open>london\<close> can be counted under "Greater London".
\<close>

theorem analytics_groups_by_record_city:
  assumes "key_passes_filter city_filter key"
    and "fetch_json S key = Some (JDict kvs)" and "kvs \<noteq> []"
    and "map_of kvs ''temperature_c'' = Some temp" and "is_number temp"
    and "py_float B temp = Inr t"
  shows "process_object B S city_filter stats key
         = Inr (stats((case map_of kvs ''city'' of
                         None \<Rightarrow> ''unknown''
                       | Some c \<Rightarrow> if truthy c then py_str B c else ''unknown'')
                  \<mapsto> update_stats
                       (case stats (case map_of kvs ''city'' of
                                      None \<Rightarrow> ''unknown''
                                    | Some c \<Rightarrow> if truthy c then py_str B c else ''unknown'') of
                          None \<Rightarrow> new_city_stats
                        | Some st \<Rightarrow> st) t))
         \<and> (\<forall>name. map_of kvs ''city'' = Some (JStr name) \<and> name \<noteq> [] \<longrightarrow>
               (case map_of kvs ''city'' of
                  None \<Rightarrow> ''unknown''
                | Some c \<Rightarrow> if truthy c then py_str B c else ''unknown'') = name)"
proof -
  have "py_str B (py_or (case map_of kvs ''city'' of None \<Rightarrow> JNull | Some v \<Rightarrow> v) (JStr ''unknown''))
        = (case map_of kvs ''city'' of
             None \<Rightarrow> ''unknown''
           | Some c \<Rightarrow> if truthy c then py_str B c else ''unknown'')"
    by (simp add: py_or_def py_str_def split: option.splits)
  then have "process_object B S city_filter stats key
         = Inr (stats((case map_of kvs ''city'' of
                         None \<Rightarrow> ''unknown''
                       | Some c \<Rightarrow> if truthy c then py_str B c else ''unknown'')
                  \<mapsto> update_stats
                       (case stats (case map_of kvs ''city'' of
                                      None \<Rightarrow> ''unknown''
                                    | Some c \<Rightarrow> if truthy c then py_str B c else ''unknown'') of
                          None \<Rightarrow> new_city_stats
                        | Some st \<Rightarrow> st) t))"
    using assms by (simp add: process_object_def bnd_def Let_def)
  moreover have "\<forall>name. map_of kvs ''city'' = Some (JStr name) \<and> name \<noteq> [] \<longrightarrow>
               (case map_of kvs ''city'' of
                  None \<Rightarrow> ''unknown''
                | Some c \<Rightarrow> if truthy c then py_str B c else ''unknown'') = name"
    by (auto simp: py_str_def)
  ultimately show ?thesis by blast
qed

theorem analytics_groups_by_record_city_witness:
  "\<exists>m. aggregate demo_builtins demo_store (Some ''London'') [demo_now] = Inr m
      \<and> m ''Greater London''
          = Some \<lparr>count = 1, temp_sum = Fin 15, temp_min = Some (Fin 15), temp_max = Some (Fin 15)\<rparr>
      \<and> m ''london'' = None"
proof -
  have a1: "key_passes_filter (normalize_city_for_filter (Some ''London''))
              ''2026/02/18/london_140509.json''"
    by code_simp
  have a2: "fetch_json demo_store ''2026/02/18/london_140509.json''
            = Some (JDict [(''city'', JStr ''Greater London''), (''temperature_c'', JFloat (Fin 15))])"
    by (simp add: demo_store_def)
  have a3: "[(''city'', JStr ''Greater London''), (''temperature_c'', JFloat (Fin 15))] \<noteq> []"
    by simp
  have a4: "map_of [(''city'', JStr ''Greater London''), (''temperature_c'', JFloat (Fin 15))]
              ''temperature_c'' = Some (JFloat (Fin 15))"
    by simp
  have a5: "is_number (JFloat (Fin 15))" by simp
  have a6: "py_float demo_builtins (JFloat (Fin 15)) = Inr (Fin 15)" by simp
  have l: "list_objects_for_prefix demo_store (prefix_for_date demo_now)
           = [''2026/02/18/london_140509.json'']"
    by code_simp
  have u: "update_stats new_city_stats (Fin 15)
           = \<lparr>count = 1, temp_sum = Fin 15, temp_min = Some (Fin 15), temp_max = Some (Fin 15)\<rparr>"
    by code_simp
  from analytics_groups_by_record_city[OF a1 a2 a3 a4 a5 a6, of Map.empty]
  have p: "process_object demo_builtins demo_store (normalize_city_for_filter (Some ''London''))
             Map.empty ''2026/02/18/london_140509.json''
           = Inr (Map.empty(''Greater London'' \<mapsto> update_stats new_city_stats (Fin 15)))"
    by (simp add: py_str_def)
  have "aggregate demo_builtins demo_store (Some ''London'') [demo_now]
        = Inr (Map.empty(''Greater London'' \<mapsto> update_stats new_city_stats (Fin 15)))"
    by (simp add: aggregate_def l p bnd_def)
  then show ?thesis by (simp add: u)
qed

end
